theory Spec2Isabelle
  imports Main "HOL-Library.Word"
begin

unbundle bit_operations_syntax

section \<open>The OTP applet of Pico FIDO (src/fido/otp.c)\<close>

text \<open>
  The embedding follows \<^verbatim>\<open>otp.c\<close> function by function. Bytes are 8-bit words, the
  C type \<^verbatim>\<open>int\<close> of the target (a 32-bit ARM core) is a 32-bit word read as two's
  complement, \<^verbatim>\<open>uint64_t\<close> is a 64-bit word. The globals of the file and of the SDK
  that the file touches are the fields of one state record, passed explicitly.
\<close>

type_synonym byte = "8 word"

subsection \<open>Constants\<close>

definition FIXED_SIZE :: nat where "FIXED_SIZE = 16"
definition KEY_SIZE :: nat where "KEY_SIZE = 16"
definition UID_SIZE :: nat where "UID_SIZE = 6"
definition ACC_CODE_SIZE :: nat where "ACC_CODE_SIZE = 6"

definition CONFIG1_VALID :: byte where "CONFIG1_VALID = 0x01"
definition CONFIG2_VALID :: byte where "CONFIG2_VALID = 0x02"
definition CONFIG1_TOUCH :: byte where "CONFIG1_TOUCH = 0x04"
definition CONFIG2_TOUCH :: byte where "CONFIG2_TOUCH = 0x08"

definition APPEND_CR :: byte where "APPEND_CR = 0x20"
definition OATH_HOTP :: byte where "OATH_HOTP = 0x40"
definition STATIC_TICKET :: byte where "STATIC_TICKET = 0x20"
definition SHORT_TICKET :: byte where "SHORT_TICKET = 0x02"
definition OATH_HOTP8 :: byte where "OATH_HOTP8 = 0x02"

definition INS_OTP :: byte where "INS_OTP = 0x01"

subsection \<open>The packed record \<^verbatim>\<open>otp_config_t\<close>\<close>

text \<open>
  The struct is declared \<^verbatim>\<open>__attribute__((packed))\<close>: its fields lie one after the
  other with no padding, so \<^verbatim>\<open>sizeof(otp_config_t)\<close> is the sum of the field sizes.
  The \<^verbatim>\<open>crc\<close> field is a \<^verbatim>\<open>uint16_t\<close>; the file never reads it, so it is kept as
  the two bytes it occupies.
\<close>

record otp_config =
  fixed_data :: "byte list"
  uid :: "byte list"
  aes_key :: "byte list"
  acc_code :: "byte list"
  fixed_size :: byte
  ext_flags :: byte
  tkt_flags :: byte
  cfg_flags :: byte
  rfu :: "byte list"
  crc :: "byte list"

definition otp_config_size :: nat where
  "otp_config_size =
     FIXED_SIZE + UID_SIZE + KEY_SIZE + ACC_CODE_SIZE + 1 + 1 + 1 + 1 + 2 + 2"

text \<open>Byte offsets of the fields, each the end of the field before it.\<close>

definition off_uid :: nat where "off_uid = FIXED_SIZE"
definition off_aes_key :: nat where "off_aes_key = off_uid + UID_SIZE"
definition off_acc_code :: nat where "off_acc_code = off_aes_key + KEY_SIZE"
definition off_fixed_size :: nat where "off_fixed_size = off_acc_code + ACC_CODE_SIZE"
definition off_ext_flags :: nat where "off_ext_flags = off_fixed_size + 1"
definition off_tkt_flags :: nat where "off_tkt_flags = off_ext_flags + 1"
definition off_cfg_flags :: nat where "off_cfg_flags = off_tkt_flags + 1"
definition off_rfu :: nat where "off_rfu = off_cfg_flags + 1"
definition off_crc :: nat where "off_crc = off_rfu + 2"

text \<open>
  The cast \<^verbatim>\<open>(otp_config_t *)p\<close>: the struct seen through a pointer to bytes. The
  callers below check that the region holds \<^const>\<open>otp_config_size\<close> bytes.
\<close>

definition as_otp_config :: "byte list \<Rightarrow> otp_config" where
  "as_otp_config bs =
     \<lparr> fixed_data = take FIXED_SIZE bs,
       uid = take UID_SIZE (drop off_uid bs),
       aes_key = take KEY_SIZE (drop off_aes_key bs),
       acc_code = take ACC_CODE_SIZE (drop off_acc_code bs),
       fixed_size = bs ! off_fixed_size,
       ext_flags = bs ! off_ext_flags,
       tkt_flags = bs ! off_tkt_flags,
       cfg_flags = bs ! off_cfg_flags,
       rfu = take 2 (drop off_rfu bs),
       crc = take 2 (drop off_crc bs) \<rparr>"

subsection \<open>Faults\<close>

text \<open>
  Reading through a null pointer and reading past the end of a stored file are undefined
  in C; the model returns them as values, so that every function below is total.
\<close>

datatype fault = NullPointer | OutOfBounds

subsection \<open>The storage collaborator\<close>

text \<open>
  Modelled from the spec: the file subsystem of the SDK (\<^verbatim>\<open>files.h\<close>:
  \<^verbatim>\<open>search_dynamic_file\<close>, \<^verbatim>\<open>file_new\<close>, \<^verbatim>\<open>file_has_data\<close>, \<^verbatim>\<open>file_get_data\<close>,
  \<^verbatim>\<open>file_get_size\<close>, \<^verbatim>\<open>flash_write_data_to_file\<close>, \<^verbatim>\<open>delete_file\<close>) is not part of
  the source file. The spec gives two slots, each addressed by a fixed storage key, a
  read that yields the raw bytes and their length or nothing, a write that replaces the
  stored bytes, a delete that removes them, and calls a slot empty iff its stored bytes
  are absent or all zero. A file handle is the file identifier; a file without data and
  a file that does not exist are the same \<open>None\<close>. The calls of
  \<^verbatim>\<open>low_flash_available\<close>, which only wake the task that commits the flash, and of
  \<^verbatim>\<open>printf\<close> are left out.
\<close>

datatype fid = EF_OTP_SLOT1 | EF_OTP_SLOT2

type_synonym file_store = "fid \<Rightarrow> byte list option"

text \<open>
  The keystroke channel (\<^verbatim>\<open>add_keyboard_buffer\<close>, \<^verbatim>\<open>append_keyboard_buffer\<close>) belongs to
  the HID transport, which is not part of the source file either: the model records each
  call with the bytes it is given, in order.
\<close>

datatype kb_call = Add_keyboard "byte list" bool | Append_keyboard "byte list"

text \<open>The response buffer \<^verbatim>\<open>res_APDU\<close> with \<^verbatim>\<open>res_APDU_size\<close>.\<close>

type_synonym response = "(nat \<Rightarrow> byte) \<times> nat"

record otp_state =
  files :: file_store
  config_seq :: byte
  res_APDU :: "nat \<Rightarrow> byte"
  res_APDU_size :: nat
  apdu_ne :: nat
  keyboard :: "kb_call list"
  oath_calls :: "(byte \<times> byte list \<times> byte list) list"

text \<open>
  \<^const>\<open>oath_calls\<close> is a ghost field: the arguments \<open>(truncate, key, chal)\<close> of each
  call of \<^verbatim>\<open>calculate_oath\<close>, in order.
\<close>

text \<open>
  What the file takes from headers that are not part of it: the two version macros of
  \<^verbatim>\<open>version.h\<close>, the value \<^verbatim>\<open>CCID_OK\<close>, the external \<^verbatim>\<open>calculate_oath\<close> (which
  returns a status and leaves its answer in the response buffer) and
  \<^verbatim>\<open>pico_get_unique_board_id_string\<close> (the bytes it writes for a given buffer length).
  They are parameters of the model.
\<close>

record platform =
  PICO_FIDO_VERSION_MAJOR :: byte
  PICO_FIDO_VERSION_MINOR :: byte
  CCID_OK :: int
  calculate_oath :: "byte \<Rightarrow> byte list \<Rightarrow> byte list \<Rightarrow> response \<Rightarrow> int \<times> response"
  pico_get_unique_board_id_string :: "nat \<Rightarrow> byte list"

definition search_dynamic_file :: "fid \<Rightarrow> fid" where
  "search_dynamic_file f = f"

definition file_new :: "fid \<Rightarrow> fid" where
  "file_new f = f"

definition file_get_data :: "otp_state \<Rightarrow> fid \<Rightarrow> byte list option" where
  "file_get_data st ef = files st ef"

definition file_get_size :: "otp_state \<Rightarrow> fid \<Rightarrow> nat" where
  "file_get_size st ef = (case files st ef of None \<Rightarrow> 0 | Some bs \<Rightarrow> length bs)"

definition file_has_data :: "otp_state \<Rightarrow> fid \<Rightarrow> bool" where
  "file_has_data st ef =
     (case files st ef of None \<Rightarrow> False | Some bs \<Rightarrow> list_ex (\<lambda>b. b \<noteq> 0) bs)"

definition flash_write_data_to_file :: "fid \<Rightarrow> byte list \<Rightarrow> otp_state \<Rightarrow> otp_state" where
  "flash_write_data_to_file ef bs st = st\<lparr>files := (files st)(ef := Some bs)\<rparr>"

definition delete_file :: "fid \<Rightarrow> otp_state \<Rightarrow> otp_state" where
  "delete_file ef st = st\<lparr>files := (files st)(ef := None)\<rparr>"

definition add_keyboard_buffer :: "byte list \<Rightarrow> bool \<Rightarrow> otp_state \<Rightarrow> otp_state" where
  "add_keyboard_buffer bs encode st = st\<lparr>keyboard := keyboard st @ [Add_keyboard bs encode]\<rparr>"

definition append_keyboard_buffer :: "byte list \<Rightarrow> otp_state \<Rightarrow> otp_state" where
  "append_keyboard_buffer bs st = st\<lparr>keyboard := keyboard st @ [Append_keyboard bs]\<rparr>"

subsection \<open>The command buffer\<close>

text \<open>
  \<^verbatim>\<open>apdu.data\<close> points into the command buffer; \<^verbatim>\<open>cmd_otp\<close> reads it at fixed offsets
  whatever \<^verbatim>\<open>apdu.nc\<close> is (its length check is commented out), so the model keeps the
  buffer as its content at every offset.
\<close>

record apdu_t =
  CLA :: byte
  INS :: byte
  P1 :: byte
  P2 :: byte
  nc :: nat
  data :: "nat \<Rightarrow> byte"

definition region :: "(nat \<Rightarrow> byte) \<Rightarrow> nat \<Rightarrow> nat \<Rightarrow> byte list" where
  "region buf off len = map (\<lambda>i. buf (off + i)) [0..<len]"

definition store_region :: "(nat \<Rightarrow> byte) \<Rightarrow> nat \<Rightarrow> byte list \<Rightarrow> (nat \<Rightarrow> byte)" where
  "store_region buf off bs =
     (\<lambda>i. if off \<le> i \<and> i < off + length bs then bs ! (i - off) else buf i)"

text \<open>
  The status-word macros of \<^verbatim>\<open>apdu.h\<close> (\<^verbatim>\<open>SW_OK()\<close> and the others) are the values
  a command returns; what the SDK does with them afterwards is outside this file.
\<close>

datatype sw =
    SW_OK
  | SW_INCORRECT_P1P2
  | SW_WRONG_DATA
  | SW_SECURITY_STATUS_NOT_SATISFIED
  | SW_CLA_NOT_SUPPORTED
  | SW_INS_NOT_SUPPORTED

subsection \<open>\<^verbatim>\<open>otp_status\<close>\<close>

definition capability :: "otp_state \<Rightarrow> byte" where
  "capability st =
     (CONFIG2_TOUCH OR CONFIG1_TOUCH)
       OR (if file_has_data st (search_dynamic_file EF_OTP_SLOT1) then CONFIG1_VALID else 0x00)
       OR (if file_has_data st (search_dynamic_file EF_OTP_SLOT2) then CONFIG2_VALID else 0x00)"

definition otp_status :: "platform \<Rightarrow> otp_state \<Rightarrow> sw \<times> otp_state" where
  "otp_status pf st =
     (let st0 = st\<lparr>res_APDU_size := 0\<rparr>;
          r1 = (res_APDU st0)(1 := PICO_FIDO_VERSION_MAJOR pf);
          r2 = r1(2 := PICO_FIDO_VERSION_MINOR pf);
          r3 = r2(3 := 0);
          r4 = r3(4 := config_seq st0);
          r5 = r4(5 := capability st0);
          r6 = r5(6 := 0)
      in (SW_OK, st0\<lparr>res_APDU := r6\<rparr>))"

subsection \<open>\<^verbatim>\<open>otp_select\<close>\<close>

definition otp_aid :: "byte list" where
  "otp_aid = [7, 0xa0, 0x00, 0x00, 0x05, 0x27, 0x20, 0x01]"

text \<open>
  \<^verbatim>\<open>memcmp\<close> over the first \<open>MIN(aid_len, otp_aid[0])\<close> bytes. The result \<open>None\<close> is the
  \<^verbatim>\<open>NULL\<close> of the source; the handlers stored in the \<^verbatim>\<open>app_t\<close> are the functions below.
\<close>

definition otp_select :: "platform \<Rightarrow> byte list \<Rightarrow> otp_state \<Rightarrow> otp_state option" where
  "otp_select pf aid st =
     (let n = min (length aid) (unat (otp_aid ! 0)) in
      if take n aid = take n (drop 1 otp_aid) then
        (let st1 =
               (if file_has_data st (search_dynamic_file EF_OTP_SLOT1)
                   \<or> file_has_data st (search_dynamic_file EF_OTP_SLOT2)
                then st\<lparr>config_seq := 1\<rparr>
                else st\<lparr>config_seq := 0\<rparr>);
             st2 = snd (otp_status pf st1)
         in Some (st2\<lparr>apdu_ne := res_APDU_size st2\<rparr>))
      else None)"

subsection \<open>\<^verbatim>\<open>cmd_otp\<close> and the dispatcher\<close>

text \<open>
  The loop of \<^verbatim>\<open>cmd_otp\<close> over the first \<^const>\<open>otp_config_size\<close> bytes of the
  command data returns from inside its body at the first non-zero byte; the body does not
  depend on the index, so the loop is the search for such a byte.
\<close>

fun has_nonzero :: "byte list \<Rightarrow> bool" where
  "has_nonzero [] = False"
| "has_nonzero (b # bs) = (if b \<noteq> 0 then True else has_nonzero bs)"

text \<open>
  The access-code check: \<open>Inr True\<close> when the stored code differs from the six bytes
  that follow the record in the command data, \<open>Inr False\<close> when the slot has no data
  or the codes agree.
\<close>

definition acc_code_mismatch :: "apdu_t \<Rightarrow> fid \<Rightarrow> otp_state \<Rightarrow> fault + bool" where
  "acc_code_mismatch apdu ef st =
     (if file_has_data st ef then
        (case file_get_data st ef of
           None \<Rightarrow> Inl NullPointer
         | Some bs \<Rightarrow>
             if length bs < otp_config_size then Inl OutOfBounds
             else
               (let otpc = as_otp_config bs in
                Inr (acc_code otpc \<noteq> region (data apdu) otp_config_size ACC_CODE_SIZE)))
      else Inr False)"

definition cmd_otp :: "platform \<Rightarrow> apdu_t \<Rightarrow> otp_state \<Rightarrow> fault + (sw \<times> otp_state)" where
  "cmd_otp pf apdu st =
     (let p1 = P1 apdu; p2 = P2 apdu in
      if p2 \<noteq> 0x00 then Inr (SW_INCORRECT_P1P2, st)
      else if p1 = 0x01 \<or> p1 = 0x03 then
        (let odata = as_otp_config (region (data apdu) 0 otp_config_size) in
         if rfu odata ! 0 \<noteq> 0 \<or> rfu odata ! 1 \<noteq> 0 then Inr (SW_WRONG_DATA, st)
         else
           (let ef = file_new (if p1 = 0x01 then EF_OTP_SLOT1 else EF_OTP_SLOT2) in
            case acc_code_mismatch apdu ef st of
              Inl e \<Rightarrow> Inl e
            | Inr True \<Rightarrow> Inr (SW_SECURITY_STATUS_NOT_SATISFIED, st)
            | Inr False \<Rightarrow>
                if has_nonzero (region (data apdu) 0 otp_config_size) then
                  (let st1 = flash_write_data_to_file ef
                               (region (data apdu) 0 otp_config_size) st;
                       st2 = st1\<lparr>config_seq := config_seq st1 + 1\<rparr>
                   in Inr (otp_status pf st2))
                else
                  (let st1 = delete_file ef st;
                       st2 =
                         (if \<not> file_has_data st1 (search_dynamic_file EF_OTP_SLOT1)
                             \<and> \<not> file_has_data st1 (search_dynamic_file EF_OTP_SLOT2)
                          then st1\<lparr>config_seq := 0\<rparr>
                          else st1)
                   in Inr (otp_status pf st2))))
      else if p1 = 0x10 then
        Inr (SW_OK,
             st\<lparr>res_APDU :=
                  store_region (res_APDU st) 0 (pico_get_unique_board_id_string pf 4),
                res_APDU_size := 4\<rparr>)
      else Inr (SW_OK, st))"

text \<open>
  The table \<^verbatim>\<open>cmds\<close> has one entry before its terminator; the loop of
  \<^verbatim>\<open>otp_process_apdu\<close> walks it and falls through to \<^verbatim>\<open>SW_INS_NOT_SUPPORTED\<close>.
\<close>

type_synonym cmd_handler = "apdu_t \<Rightarrow> otp_state \<Rightarrow> fault + (sw \<times> otp_state)"

definition cmds :: "platform \<Rightarrow> (byte \<times> cmd_handler) list" where
  "cmds pf = [(INS_OTP, cmd_otp pf)]"

fun run_cmds :: "(byte \<times> cmd_handler) list \<Rightarrow> apdu_t \<Rightarrow> otp_state \<Rightarrow> fault + (sw \<times> otp_state)" where
  "run_cmds [] apdu st = Inr (SW_INS_NOT_SUPPORTED, st)"
| "run_cmds ((ins, cmd_handler) # rest) apdu st =
     (if ins = INS apdu then cmd_handler apdu st else run_cmds rest apdu st)"

definition otp_process_apdu :: "platform \<Rightarrow> apdu_t \<Rightarrow> otp_state \<Rightarrow> fault + (sw \<times> otp_state)" where
  "otp_process_apdu pf apdu st =
     (if CLA apdu \<noteq> 0x00 then Inr (SW_CLA_NOT_SUPPORTED, st)
      else run_cmds (cmds pf) apdu st)"

subsection \<open>\<^verbatim>\<open>otp_button_pressed\<close>\<close>

text \<open>
  An \<^verbatim>\<open>int\<close> converted to \<^verbatim>\<open>uint64_t\<close> is sign-extended. A byte shifted left as an
  \<^verbatim>\<open>int\<close> keeps its bits in 32-bit two's complement (what the compiler of the target
  does where the C standard leaves the shift into the sign bit open).
\<close>

type_synonym c_int = "32 word"

definition int_to_u64 :: "c_int \<Rightarrow> 64 word" where
  "int_to_u64 x = scast x"

definition byte_to_int :: "byte \<Rightarrow> c_int" where
  "byte_to_int b = ucast b"

definition byte_to_u64 :: "byte \<Rightarrow> 64 word" where
  "byte_to_u64 b = ucast b"

text \<open>The initialiser \<^verbatim>\<open>{imf >> 56, ..., imf >> 8, imf & 0xff}\<close> of a byte array.\<close>

definition imf_bytes :: "64 word \<Rightarrow> byte list" where
  "imf_bytes imf =
     [ucast (drop_bit 56 imf), ucast (drop_bit 48 imf), ucast (drop_bit 40 imf),
      ucast (drop_bit 32 imf), ucast (drop_bit 24 imf), ucast (drop_bit 16 imf),
      ucast (drop_bit 8 imf), ucast (imf AND 0xff)]"

text \<open>
  The moving factor as the source resolves it from the stored bytes \<open>bs\<close> of a slot
  and the result of \<^verbatim>\<open>file_get_size\<close>:
  from \<^verbatim>\<open>uid[4]\<close> and \<^verbatim>\<open>uid[5]\<close> when the file has the size of the record, from the
  eight bytes after the record otherwise. The first four of these are cast to
  \<^verbatim>\<open>uint64_t\<close> before the shift, the last four are shifted as \<^verbatim>\<open>int\<close>.
\<close>

definition resolve_imf :: "nat \<Rightarrow> byte list \<Rightarrow> fault + 64 word" where
  "resolve_imf file_size bs =
     (let otp_config = as_otp_config bs in
      if file_size = otp_config_size then
        Inr (int_to_u64
               (push_bit 4 (push_bit 8 (byte_to_int (uid otp_config ! 4))
                              OR byte_to_int (uid otp_config ! 5))))
      else if length bs < otp_config_size + 8 then Inl OutOfBounds
      else
        (let p = drop otp_config_size bs;
             imf0 = (0 :: 64 word);
             imf1 = imf0 OR push_bit 56 (byte_to_u64 (p ! 0));
             imf2 = imf1 OR push_bit 48 (byte_to_u64 (p ! 1));
             imf3 = imf2 OR push_bit 40 (byte_to_u64 (p ! 2));
             imf4 = imf3 OR push_bit 32 (byte_to_u64 (p ! 3));
             imf5 = imf4 OR int_to_u64 (push_bit 24 (byte_to_int (p ! 4)));
             imf6 = imf5 OR int_to_u64 (push_bit 16 (byte_to_int (p ! 5)));
             imf7 = imf6 OR int_to_u64 (push_bit 8 (byte_to_int (p ! 6)));
             imf8 = imf7 OR int_to_u64 (byte_to_int (p ! 7))
         in Inr imf8))"

text \<open>
  \<^verbatim>\<open>sprintf\<close> with \<^verbatim>\<open>%08lu\<close> or \<^verbatim>\<open>%06lu\<close>: the \<open>k\<close> decimal digits of \<open>n\<close>, zero-padded.
  The number printed is below \<open>10 ^ k\<close> in both uses, so no digit is lost.
\<close>

fun decimal :: "nat \<Rightarrow> nat \<Rightarrow> byte list" where
  "decimal 0 n = []"
| "decimal (Suc k) n = decimal k (n div 10) @ [0x30 + of_nat (n mod 10)]"

text \<open>
  The key handed to \<^verbatim>\<open>calculate_oath\<close>. The source assigns \<^verbatim>\<open>tmp_key[0]\<close> and copies
  the key to \<^verbatim>\<open>tmp_key + 2\<close>; \<^verbatim>\<open>tmp_key[1]\<close> is never assigned, so its value is what
  the stack holds, the parameter \<open>tmp_key1\<close>.
\<close>

definition tmp_key_of :: "byte \<Rightarrow> otp_config \<Rightarrow> byte list" where
  "tmp_key_of tmp_key1 otp_config = 0x01 # tmp_key1 # aes_key otp_config"

definition hotp_branch ::
  "platform \<Rightarrow> byte \<Rightarrow> fid \<Rightarrow> byte list \<Rightarrow> otp_state \<Rightarrow> fault + otp_state" where
  "hotp_branch pf tmp_key1 ef bs st =
     (let otp_config = as_otp_config bs;
          tmp_key = tmp_key_of tmp_key1 otp_config
      in case resolve_imf (file_get_size st ef) bs of
           Inl e \<Rightarrow> Inl e
         | Inr imf \<Rightarrow>
             (let chal = imf_bytes imf;
                  st1 = st\<lparr>res_APDU_size := 0\<rparr>;
                  (ret, (buf, sz)) =
                     calculate_oath pf 1 tmp_key chal (res_APDU st1, res_APDU_size st1);
                  st2 = st1\<lparr>res_APDU := buf, res_APDU_size := sz,
                            oath_calls := oath_calls st1 @ [(1, tmp_key, chal)]\<rparr>;
                  st3 =
                    (if ret = CCID_OK pf then
                       (let base = (if cfg_flags otp_config AND OATH_HOTP8 \<noteq> 0
                                    then 100000000 else 1000000 :: 32 word);
                            number = (push_bit 24 (byte_to_int (buf 2))
                                        OR push_bit 16 (byte_to_int (buf 3))
                                        OR push_bit 8 (byte_to_int (buf 4))
                                        OR byte_to_int (buf 5));
                            number' = number mod base;
                            st4 =
                              (if cfg_flags otp_config AND OATH_HOTP8 \<noteq> 0
                               then add_keyboard_buffer (decimal 8 (unat number')) True st2
                               else add_keyboard_buffer (decimal 6 (unat number')) True st2);
                            imf' = imf + 1;
                            new_chal = imf_bytes imf';
                            new_otp_config = take otp_config_size bs @ new_chal
                        in flash_write_data_to_file ef new_otp_config st4)
                     else st2)
              in Inr (if tkt_flags otp_config AND APPEND_CR \<noteq> 0
                      then append_keyboard_buffer [0x0d] st3
                      else st3)))"

text \<open>
  The ticket branch. \<^verbatim>\<open>otp_config->fixed_size /= 2\<close> writes through the pointer into
  the data of the file, so the stored byte changes with it. \<^verbatim>\<open>add_keyboard_buffer\<close> is
  given the address of \<^verbatim>\<open>fixed_data\<close>, the start of the record, and the length
  \<^verbatim>\<open>fixed_size\<close>: the bytes it reads are the first \<^verbatim>\<open>fixed_size\<close> stored bytes.
\<close>

definition ticket_branch :: "fid \<Rightarrow> byte list \<Rightarrow> otp_state \<Rightarrow> fault + otp_state" where
  "ticket_branch ef bs st =
     (let otp_config = as_otp_config bs;
          bs' = (if cfg_flags otp_config AND SHORT_TICKET \<noteq> 0
                 then bs[off_fixed_size := fixed_size otp_config div 2]
                 else bs);
          st1 = (if cfg_flags otp_config AND SHORT_TICKET \<noteq> 0
                 then st\<lparr>files := (files st)(ef := Some bs')\<rparr>
                 else st);
          otp_config' = as_otp_config bs';
          len = unat (fixed_size otp_config')
      in if length bs' < len then Inl OutOfBounds
         else
           (let st2 = add_keyboard_buffer (take len bs') False st1
            in Inr (if tkt_flags otp_config' AND APPEND_CR \<noteq> 0
                    then append_keyboard_buffer [0x28] st2
                    else st2)))"

text \<open>
  The handler itself (the build without \<^verbatim>\<open>ENABLE_EMULATION\<close>). Its \<^verbatim>\<open>int\<close> result is
  the constant 0 and is left out. The first read of \<^verbatim>\<open>otp_config->tkt_flags\<close> is where
  a null or short region shows.
\<close>

definition otp_button_pressed ::
  "platform \<Rightarrow> byte \<Rightarrow> byte \<Rightarrow> otp_state \<Rightarrow> fault + otp_state" where
  "otp_button_pressed pf tmp_key1 slot st =
     (let ef = search_dynamic_file (if slot = 1 then EF_OTP_SLOT1 else EF_OTP_SLOT2) in
      case file_get_data st ef of
        None \<Rightarrow> Inl NullPointer
      | Some bs \<Rightarrow>
          if length bs < otp_config_size then Inl OutOfBounds
          else
            (let otp_config = as_otp_config bs in
             if tkt_flags otp_config AND OATH_HOTP \<noteq> 0 then
               hotp_branch pf tmp_key1 ef bs st
             else if cfg_flags otp_config AND SHORT_TICKET \<noteq> 0
                     \<or> cfg_flags otp_config AND STATIC_TICKET \<noteq> 0 then
               ticket_branch ef bs st
             else Inr st))"


subsection \<open>Observers and concrete inputs\<close>

text \<open>What a slot holds after a command, for statements about a result as a whole.\<close>

definition slot_after :: "fid \<Rightarrow> fault + (sw \<times> otp_state) \<Rightarrow> byte list option" where
  "slot_after ef r = (case r of Inl e \<Rightarrow> None | Inr res \<Rightarrow> file_get_data (snd res) ef)"

text \<open>
  A platform whose \<^verbatim>\<open>calculate_oath\<close> succeeds and leaves the response buffer as it
  is, a state with two empty slots, and commands used below.
\<close>

definition ex_platform :: platform where
  "ex_platform =
     \<lparr> PICO_FIDO_VERSION_MAJOR = 5, PICO_FIDO_VERSION_MINOR = 7, CCID_OK = 0,
       calculate_oath = (\<lambda>truncate key chal r. (0, r)),
       pico_get_unique_board_id_string = (\<lambda>n. replicate n 0x30) \<rparr>"

definition ex_empty :: otp_state where
  "ex_empty =
     \<lparr> files = (\<lambda>f. None), config_seq = 0, res_APDU = (\<lambda>i. 0xee), res_APDU_size = 0,
       apdu_ne = 0, keyboard = [], oath_calls = [] \<rparr>"

definition ex_configure :: apdu_t where
  "ex_configure =
     \<lparr> CLA = 0x00, INS = 0x01, P1 = 0x01, P2 = 0x00, nc = 58,
       data = (\<lambda>i. if i = 0 then 0x2a else 0) \<rparr>"

definition ex_unknown_p1 :: apdu_t where
  "ex_unknown_p1 =
     \<lparr> CLA = 0x00, INS = 0x01, P1 = 0x02, P2 = 0x00, nc = 0, data = (\<lambda>i. 0) \<rparr>"

definition sw_after :: "fault + (sw \<times> otp_state) \<Rightarrow> sw option" where
  "sw_after r = (case r of Inl e \<Rightarrow> None | Inr res \<Rightarrow> Some (fst res))"

definition seq_after :: "fault + (sw \<times> otp_state) \<Rightarrow> byte option" where
  "seq_after r = (case r of Inl e \<Rightarrow> None | Inr res \<Rightarrow> Some (config_seq (snd res)))"

text \<open>
  A ticket record: sixteen bytes of fixed data, access code 1..6, \<^verbatim>\<open>fixed_size\<close> 16,
  \<^verbatim>\<open>tkt_flags\<close> = \<^verbatim>\<open>APPEND_CR\<close>, \<^verbatim>\<open>cfg_flags\<close> = \<^verbatim>\<open>SHORT_TICKET\<close>. And a record
  whose only non-zero byte is \<^verbatim>\<open>cfg_flags\<close> = \<^verbatim>\<open>STATIC_TICKET\<close>, so that its access
  code is six zero bytes.
\<close>

definition ex_ticket_record :: "byte list" where
  "ex_ticket_record =
     [0x61, 0x62, 0x63, 0x64, 0x65, 0x66, 0x67, 0x68,
      0x69, 0x6a, 0x6b, 0x6c, 0x6d, 0x6e, 0x6f, 0x70]
     @ replicate 6 0 @ replicate 16 0 @ [1, 2, 3, 4, 5, 6]
     @ [16, 0x00, 0x20, 0x02] @ [0, 0] @ [0, 0]"

definition ex_open_record :: "byte list" where
  "ex_open_record = replicate 47 0 @ [0x20] @ replicate 4 0"

definition ex_slot1 :: otp_state where
  "ex_slot1 =
     ex_empty\<lparr>files := (\<lambda>f. if f = EF_OTP_SLOT1 then Some ex_ticket_record else None)\<rparr>"

definition ex_only1 :: otp_state where
  "ex_only1 =
     ex_empty\<lparr>files := (\<lambda>f. if f = EF_OTP_SLOT1 then Some ex_open_record else None),
              config_seq := 5\<rparr>"

definition ex_both :: otp_state where
  "ex_both = ex_empty\<lparr>files := (\<lambda>f. Some ex_open_record), config_seq := 5\<rparr>"

definition ex_bad_rfu :: apdu_t where
  "ex_bad_rfu =
     \<lparr> CLA = 0x00, INS = 0x01, P1 = 0x01, P2 = 0x00, nc = 58,
       data = (\<lambda>i. if i = 48 then 0x01 else 0) \<rparr>"

definition ex_delete :: apdu_t where
  "ex_delete =
     \<lparr> CLA = 0x00, INS = 0x01, P1 = 0x01, P2 = 0x00, nc = 58, data = (\<lambda>i. 0) \<rparr>"

text \<open>The application identifier of the applet, as a selection presents it.\<close>

definition ex_aid :: "byte list" where
  "ex_aid = [0xa0, 0x00, 0x00, 0x05, 0x27, 0x20, 0x01]"

text \<open>
  The value of a byte sequence read as a big-endian unsigned integer, as the spec words
  the moving factor; the source's own reading is \<^const>\<open>resolve_imf\<close>.
\<close>

definition big_endian :: "byte list \<Rightarrow> nat" where
  "big_endian bs = foldl (\<lambda>acc b. 256 * acc + unat b) 0 bs"

text \<open>
  The moving factor of a slot in the spec's words: the value derived from the last two
  bytes of \<^verbatim>\<open>uid\<close>, \<open>((uid[4] << 8) | uid[5]) << 4\<close>, when the stored bytes are the
  record alone, and the big-endian value of the eight bytes after the record otherwise.
  \<open>be_word\<close> is the same big-endian reading of eight bytes as a 64-bit word.
\<close>

definition uid_imf :: "byte list \<Rightarrow> 64 word" where
  "uid_imf bs =
     push_bit 4 (push_bit 8 (ucast (uid (as_otp_config bs) ! 4))
                   OR ucast (uid (as_otp_config bs) ! 5))"




definition keys_after :: "fault + otp_state \<Rightarrow> byte list list" where
  "keys_after r = (case r of Inl e \<Rightarrow> [] | Inr st \<Rightarrow> map (fst \<circ> snd) (oath_calls st))"

definition chals_after :: "fault + otp_state \<Rightarrow> byte list list" where
  "chals_after r = (case r of Inl e \<Rightarrow> [] | Inr st \<Rightarrow> map (snd \<circ> snd) (oath_calls st))"

definition keyboard_after :: "fault + otp_state \<Rightarrow> kb_call list" where
  "keyboard_after r = (case r of Inl e \<Rightarrow> [] | Inr st \<Rightarrow> keyboard st)"


definition ex_hotp_record :: "byte list" where
  "ex_hotp_record =
     replicate 16 0 @ [0, 0, 0, 0, 0x12, 0x34] @ replicate 16 0x0b @ replicate 6 0
     @ [0, 0x00, 0x40, 0x00] @ [0, 0] @ [0, 0]"

definition ex_hotp :: "byte list \<Rightarrow> otp_state" where
  "ex_hotp ext =
     ex_empty\<lparr>files := (\<lambda>f. if f = EF_OTP_SLOT1 then Some (ex_hotp_record @ ext) else None)\<rparr>"

section \<open>Properties\<close>

subsection \<open>Sizes, regions and the status block\<close>

lemmas sizes = FIXED_SIZE_def KEY_SIZE_def UID_SIZE_def ACC_CODE_SIZE_def

lemmas offsets = off_uid_def off_aes_key_def off_acc_code_def off_fixed_size_def
  off_ext_flags_def off_tkt_flags_def off_cfg_flags_def off_rfu_def off_crc_def

lemma otp_config_size_52: "otp_config_size = 52"
  by (simp add: otp_config_size_def sizes)

lemma length_region [simp]: "length (region buf off len) = len"
  by (simp add: region_def)

lemma nth_region [simp]: "i < len \<Longrightarrow> region buf off len ! i = buf (off + i)"
  by (simp add: region_def)

lemma has_nonzero_iff: "has_nonzero bs \<longleftrightarrow> (\<exists>b \<in> set bs. b \<noteq> 0)"
  by (induction bs) auto

lemma has_nonzero_region:
  "has_nonzero (region buf off len) \<longleftrightarrow> (\<exists>i<len. buf (off + i) \<noteq> 0)"
  by (auto simp add: has_nonzero_iff region_def)

lemma rfu_region:
  "rfu (as_otp_config (region buf 0 otp_config_size)) ! 0 = buf 48"
  "rfu (as_otp_config (region buf 0 otp_config_size)) ! Suc 0 = buf 49"
  by (simp_all add: as_otp_config_def otp_config_size_52 offsets sizes)

lemma otp_status_files [simp]: "files (snd (otp_status pf st)) = files st"
  by (simp add: otp_status_def Let_def)

lemma otp_status_seq [simp]: "config_seq (snd (otp_status pf st)) = config_seq st"
  by (simp add: otp_status_def Let_def)

lemma otp_status_sw [simp]: "fst (otp_status pf st) = SW_OK"
  by (simp add: otp_status_def Let_def)

lemma otp_status_eq: "otp_status pf st = (SW_OK, snd (otp_status pf st))"
  by (simp add: prod_eq_iff)

subsection \<open>The four ways through a configure command\<close>

lemma cmd_otp_wrong_data:
  assumes "P2 apdu = 0" "P1 apdu = 1 \<or> P1 apdu = 3"
    and "data apdu 48 \<noteq> 0 \<or> data apdu 49 \<noteq> 0"
  shows "cmd_otp pf apdu st = Inr (SW_WRONG_DATA, st)"
  using assms by (auto simp add: cmd_otp_def Let_def rfu_region)

lemma cmd_otp_denied:
  assumes "P2 apdu = 0" "P1 apdu = 1 \<or> P1 apdu = 3"
    and "data apdu 48 = 0" "data apdu 49 = 0"
    and "acc_code_mismatch apdu (if P1 apdu = 1 then EF_OTP_SLOT1 else EF_OTP_SLOT2) st = Inr True"
  shows "cmd_otp pf apdu st = Inr (SW_SECURITY_STATUS_NOT_SATISFIED, st)"
  using assms by (auto simp add: cmd_otp_def Let_def rfu_region file_new_def)

lemma cmd_otp_write:
  assumes "P2 apdu = 0" "P1 apdu = 1 \<or> P1 apdu = 3"
    and "data apdu 48 = 0" "data apdu 49 = 0"
    and "ef = (if P1 apdu = 1 then EF_OTP_SLOT1 else EF_OTP_SLOT2)"
    and "acc_code_mismatch apdu ef st = Inr False"
    and "has_nonzero (region (data apdu) 0 otp_config_size)"
  shows "cmd_otp pf apdu st =
           Inr (otp_status pf
                  ((flash_write_data_to_file ef (region (data apdu) 0 otp_config_size) st)
                     \<lparr>config_seq := config_seq st + 1\<rparr>))"
  using assms
  by (auto simp add: cmd_otp_def Let_def rfu_region file_new_def flash_write_data_to_file_def)

lemma cmd_otp_delete:
  assumes "P2 apdu = 0" "P1 apdu = 1 \<or> P1 apdu = 3"
    and "data apdu 48 = 0" "data apdu 49 = 0"
    and "ef = (if P1 apdu = 1 then EF_OTP_SLOT1 else EF_OTP_SLOT2)"
    and "acc_code_mismatch apdu ef st = Inr False"
    and "\<not> has_nonzero (region (data apdu) 0 otp_config_size)"
  shows "cmd_otp pf apdu st =
           Inr (otp_status pf
                  (if \<not> file_has_data (delete_file ef st) EF_OTP_SLOT1
                      \<and> \<not> file_has_data (delete_file ef st) EF_OTP_SLOT2
                   then (delete_file ef st)\<lparr>config_seq := 0\<rparr>
                   else delete_file ef st))"
  using assms
  by (auto simp add: cmd_otp_def Let_def rfu_region file_new_def search_dynamic_file_def)

lemma ex_configure_nonzero: "has_nonzero (region (data ex_configure) 0 otp_config_size)"
  unfolding has_nonzero_region
  by (rule exI [of _ 0]) (simp add: ex_configure_def otp_config_size_52)

lemma ex_empty_no_data: "\<not> file_has_data ex_empty ef"
  by (simp add: file_has_data_def ex_empty_def)

subsection \<open>C1: the size of the record and the first write to a slot\<close>

text \<open>
  C1, as the source has it. The packed record is 52 bytes (16 + 6 + 16 + 6 + 1 + 1 + 1 +
  1 + 2 + 2), not 46. A configure command (P1 = 1 or 3, P2 = 0) whose reserved bytes
  are zero, whose first 52 data bytes are not all zero and whose slot is empty is
  answered with the success status, and the slot then holds exactly these 52 bytes:
  reading it back gives them, with size 52.
\<close>

theorem configure_empty_slot_roundtrip:
  assumes p2: "P2 apdu = 0"
    and p1: "P1 apdu = 1 \<or> P1 apdu = 3"
    and rfu0: "data apdu 48 = 0" and rfu1: "data apdu 49 = 0"
    and ef: "ef = (if P1 apdu = 1 then EF_OTP_SLOT1 else EF_OTP_SLOT2)"
    and empty: "\<not> file_has_data st ef"
    and nz: "has_nonzero (region (data apdu) 0 otp_config_size)"
  shows "otp_config_size = 52 \<and>
         (\<exists>st'. cmd_otp pf apdu st = Inr (SW_OK, st')
            \<and> file_get_data st' ef = Some (region (data apdu) 0 otp_config_size)
            \<and> file_get_size st' ef = otp_config_size)"
proof -
  have mm: "acc_code_mismatch apdu ef st = Inr False"
    using empty by (simp add: acc_code_mismatch_def)
  let ?st2 = "(flash_write_data_to_file ef (region (data apdu) 0 otp_config_size) st)
                \<lparr>config_seq := config_seq st + 1\<rparr>"
  have "cmd_otp pf apdu st = Inr (SW_OK, snd (otp_status pf ?st2))"
    using cmd_otp_write [OF p2 p1 rfu0 rfu1 ef mm nz] otp_status_eq by metis
  moreover have "file_get_data (snd (otp_status pf ?st2)) ef
                   = Some (region (data apdu) 0 otp_config_size)"
    by (simp add: file_get_data_def flash_write_data_to_file_def)
  moreover have "file_get_size (snd (otp_status pf ?st2)) ef = otp_config_size"
    by (simp add: file_get_size_def flash_write_data_to_file_def)
  ultimately show ?thesis using otp_config_size_52 by blast
qed

theorem configure_empty_slot_roundtrip_witness:
  "P2 ex_configure = 0 \<and> P1 ex_configure = 1 \<and> \<not> file_has_data ex_empty EF_OTP_SLOT1
   \<and> has_nonzero (region (data ex_configure) 0 otp_config_size)
   \<and> (\<exists>st'. cmd_otp ex_platform ex_configure ex_empty = Inr (SW_OK, st')
          \<and> file_get_data st' EF_OTP_SLOT1 = Some (region (data ex_configure) 0 otp_config_size)
          \<and> file_get_size st' EF_OTP_SLOT1 = otp_config_size)"
  using configure_empty_slot_roundtrip [of ex_configure EF_OTP_SLOT1 ex_empty ex_platform]
    ex_configure_nonzero ex_empty_no_data [of EF_OTP_SLOT1]
  by (simp add: ex_configure_def)

text \<open>
  The claim with 46 fails: the record is not 46 bytes, and after a configure command
  with a non-zero payload to an empty slot 1 the slot holds the first 52 bytes of the
  command data, not the first 46.
\<close>

theorem record_size_46_counterexample:
  "otp_config_size \<noteq> 46
   \<and> slot_after EF_OTP_SLOT1 (cmd_otp ex_platform ex_configure ex_empty)
       = Some (region (data ex_configure) 0 52)
   \<and> slot_after EF_OTP_SLOT1 (cmd_otp ex_platform ex_configure ex_empty)
       \<noteq> Some (region (data ex_configure) 0 46)"
proof -
  have mm: "acc_code_mismatch ex_configure EF_OTP_SLOT1 ex_empty = Inr False"
    using ex_empty_no_data by (simp add: acc_code_mismatch_def)
  have run: "cmd_otp ex_platform ex_configure ex_empty =
          Inr (otp_status ex_platform
                  ((flash_write_data_to_file EF_OTP_SLOT1
                      (region (data ex_configure) 0 otp_config_size) ex_empty)
                     \<lparr>config_seq := config_seq ex_empty + 1\<rparr>))"
    by (rule cmd_otp_write [OF _ _ _ _ _ mm ex_configure_nonzero])
       (simp_all add: ex_configure_def)
  have "slot_after EF_OTP_SLOT1 (cmd_otp ex_platform ex_configure ex_empty)
          = Some (region (data ex_configure) 0 52)"
    unfolding run
    by (simp add: slot_after_def file_get_data_def flash_write_data_to_file_def
        otp_config_size_52)
  moreover have "region (data ex_configure) 0 52 \<noteq> region (data ex_configure) 0 46"
  proof
    assume "region (data ex_configure) 0 52 = region (data ex_configure) 0 46"
    then have "length (region (data ex_configure) 0 52)
                 = length (region (data ex_configure) 0 46)"
      by simp
    then show False by simp
  qed
  ultimately show ?thesis by (simp add: otp_config_size_52)
qed

subsection \<open>C10: an unknown sub-selector\<close>

text \<open>
  C10. A command with class byte 0x00, instruction 0x01, P2 = 0 and P1 outside
  {0x01, 0x03, 0x10} is answered with the success status, and the state (both slots
  and the sequence counter with it) is the one before the command.
\<close>

theorem unknown_p1_accepted:
  assumes "CLA apdu = 0x00" and "INS apdu = 0x01" and "P2 apdu = 0"
    and "P1 apdu \<notin> {0x01, 0x03, 0x10}"
  shows "otp_process_apdu pf apdu st = Inr (SW_OK, st)"
  using assms by (simp add: otp_process_apdu_def cmds_def INS_OTP_def cmd_otp_def)

theorem unknown_p1_accepted_witness:
  "CLA ex_unknown_p1 = 0x00 \<and> INS ex_unknown_p1 = 0x01 \<and> P2 ex_unknown_p1 = 0
   \<and> P1 ex_unknown_p1 \<notin> {0x01, 0x03, 0x10}
   \<and> otp_process_apdu ex_platform ex_unknown_p1 ex_empty = Inr (SW_OK, ex_empty)"
  using unknown_p1_accepted [of ex_unknown_p1 ex_platform ex_empty]
  by (simp add: ex_unknown_p1_def)

subsection \<open>C5: a wrong access code\<close>

lemma length_ex_ticket_record: "length ex_ticket_record = 52"
  by (simp add: ex_ticket_record_def)

lemma acc_code_ex_ticket_record: "acc_code (as_otp_config ex_ticket_record) = [1, 2, 3, 4, 5, 6]"
  by (simp add: ex_ticket_record_def as_otp_config_def offsets sizes)

lemma region_zero: "region (\<lambda>i. 0) off len = replicate len 0"
  by (simp add: region_def map_replicate_const)

lemma ex_slot1_has_data: "file_has_data ex_slot1 EF_OTP_SLOT1"
  by (simp add: file_has_data_def ex_slot1_def ex_empty_def ex_ticket_record_def)

lemma ex_configure_acc: "region (data ex_configure) otp_config_size ACC_CODE_SIZE = replicate 6 0"
  by (simp add: region_def ex_configure_def otp_config_size_52 sizes map_replicate_const)

text \<open>
  C5, as the source has it. \<^verbatim>\<open>cmd_otp\<close> tests the reserved bytes before the access
  code. A configure command (P1 = 1 or 3, P2 = 0) whose reserved bytes are zero, sent to
  a slot that holds data with a stored record, and whose six bytes after the record
  differ from the stored access code, is answered with
  \<^verbatim>\<open>SW_SECURITY_STATUS_NOT_SATISFIED\<close>; the state after it is the state before it, so
  the stored bytes and the sequence counter are unchanged.
\<close>

theorem wrong_access_code_rejected:
  assumes p2: "P2 apdu = 0"
    and p1: "P1 apdu = 1 \<or> P1 apdu = 3"
    and rfu0: "data apdu 48 = 0" and rfu1: "data apdu 49 = 0"
    and ef: "ef = (if P1 apdu = 1 then EF_OTP_SLOT1 else EF_OTP_SLOT2)"
    and nonempty: "file_has_data st ef"
    and stored: "file_get_data st ef = Some bs" "otp_config_size \<le> length bs"
    and differs: "acc_code (as_otp_config bs) \<noteq> region (data apdu) otp_config_size ACC_CODE_SIZE"
  shows "cmd_otp pf apdu st = Inr (SW_SECURITY_STATUS_NOT_SATISFIED, st)"
proof -
  have "acc_code_mismatch apdu ef st = Inr True"
    using nonempty stored differs by (simp add: acc_code_mismatch_def)
  then show ?thesis
    using cmd_otp_denied [OF p2 p1 rfu0 rfu1] ef by simp
qed

theorem wrong_access_code_rejected_witness:
  "file_has_data ex_slot1 EF_OTP_SLOT1
   \<and> acc_code (as_otp_config ex_ticket_record) \<noteq> region (data ex_configure) otp_config_size ACC_CODE_SIZE
   \<and> cmd_otp ex_platform ex_configure ex_slot1 = Inr (SW_SECURITY_STATUS_NOT_SATISFIED, ex_slot1)"
proof -
  have d: "acc_code (as_otp_config ex_ticket_record)
            \<noteq> region (data ex_configure) otp_config_size ACC_CODE_SIZE"
    by (simp add: acc_code_ex_ticket_record ex_configure_acc eval_nat_numeral)
  have g: "file_get_data ex_slot1 EF_OTP_SLOT1 = Some ex_ticket_record"
    by (simp add: file_get_data_def ex_slot1_def)
  have "cmd_otp ex_platform ex_configure ex_slot1 = Inr (SW_SECURITY_STATUS_NOT_SATISFIED, ex_slot1)"
    by (rule wrong_access_code_rejected [OF _ _ _ _ _ ex_slot1_has_data g _ d])
       (simp_all add: ex_configure_def length_ex_ticket_record otp_config_size_52)
  with d ex_slot1_has_data show ?thesis by simp
qed

text \<open>
  The claim without the condition on the reserved bytes fails: slot 1 holds data, the
  supplied access code (six zero bytes) differs from the stored one, and the command is
  answered with \<^verbatim>\<open>SW_WRONG_DATA\<close>, not with the security status.
\<close>

theorem wrong_access_code_counterexample:
  "file_has_data ex_slot1 EF_OTP_SLOT1
   \<and> slot_after EF_OTP_SLOT1 (Inr (SW_OK, ex_slot1)) = Some ex_ticket_record
   \<and> acc_code (as_otp_config ex_ticket_record) \<noteq> region (data ex_bad_rfu) otp_config_size ACC_CODE_SIZE
   \<and> cmd_otp ex_platform ex_bad_rfu ex_slot1 = Inr (SW_WRONG_DATA, ex_slot1)"
proof -
  have "region (data ex_bad_rfu) otp_config_size ACC_CODE_SIZE = replicate 6 0"
    by (simp add: region_def ex_bad_rfu_def otp_config_size_52 sizes map_replicate_const)
  then have d: "acc_code (as_otp_config ex_ticket_record)
            \<noteq> region (data ex_bad_rfu) otp_config_size ACC_CODE_SIZE"
    by (simp add: acc_code_ex_ticket_record eval_nat_numeral)
  have "cmd_otp ex_platform ex_bad_rfu ex_slot1 = Inr (SW_WRONG_DATA, ex_slot1)"
    by (rule cmd_otp_wrong_data) (simp_all add: ex_bad_rfu_def)
  moreover have "slot_after EF_OTP_SLOT1 (Inr (SW_OK, ex_slot1)) = Some ex_ticket_record"
    by (simp add: slot_after_def file_get_data_def ex_slot1_def)
  ultimately show ?thesis using d ex_slot1_has_data by simp
qed

subsection \<open>C8: the status block\<close>

lemma capability_touch:
  "capability st AND (CONFIG1_TOUCH OR CONFIG2_TOUCH) = CONFIG1_TOUCH OR CONFIG2_TOUCH"
  by (simp add: capability_def CONFIG1_TOUCH_def CONFIG2_TOUCH_def CONFIG1_VALID_def
      CONFIG2_VALID_def)

lemma capability_valid1:
  "(capability st AND CONFIG1_VALID \<noteq> 0) = file_has_data st EF_OTP_SLOT1"
  by (simp add: capability_def CONFIG1_TOUCH_def CONFIG2_TOUCH_def CONFIG1_VALID_def
      CONFIG2_VALID_def search_dynamic_file_def)

lemma capability_valid2:
  "(capability st AND CONFIG2_VALID \<noteq> 0) = file_has_data st EF_OTP_SLOT2"
  by (simp add: capability_def CONFIG1_TOUCH_def CONFIG2_TOUCH_def CONFIG1_VALID_def
      CONFIG2_VALID_def search_dynamic_file_def)

lemma region_1_6: "region buf 1 6 = [buf 1, buf 2, buf 3, buf 4, buf 5, buf 6]"
  by (simp add: region_def upt_rec numeral_eq_Suc)

text \<open>
  C8, as the source has it. \<^verbatim>\<open>otp_status\<close> sets \<^verbatim>\<open>res_APDU_size\<close> to 0 and stores
  the six bytes major, minor, 0, sequence counter, capability flags, 0 at the offsets 1
  to 6 of the response buffer. The capability byte always has both touch bits set, and
  the presence bit of a slot is set iff the slot holds data.
\<close>

theorem otp_status_block:
  "fst (otp_status pf st) = SW_OK
   \<and> res_APDU_size (snd (otp_status pf st)) = 0
   \<and> region (res_APDU (snd (otp_status pf st))) 1 6 =
       [PICO_FIDO_VERSION_MAJOR pf, PICO_FIDO_VERSION_MINOR pf, 0, config_seq st, capability st, 0]
   \<and> capability st AND (CONFIG1_TOUCH OR CONFIG2_TOUCH) = CONFIG1_TOUCH OR CONFIG2_TOUCH
   \<and> (capability st AND CONFIG1_VALID \<noteq> 0) = file_has_data st EF_OTP_SLOT1
   \<and> (capability st AND CONFIG2_VALID \<noteq> 0) = file_has_data st EF_OTP_SLOT2"
proof -
  have "region (res_APDU (snd (otp_status pf st))) 1 6 =
       [PICO_FIDO_VERSION_MAJOR pf, PICO_FIDO_VERSION_MINOR pf, 0, config_seq st, capability st, 0]"
    unfolding region_1_6 by (simp add: otp_status_def Let_def capability_def file_has_data_def)
  moreover have "res_APDU_size (snd (otp_status pf st)) = 0"
    by (simp add: otp_status_def Let_def)
  ultimately show ?thesis
    using capability_touch capability_valid1 capability_valid2 by simp
qed

text \<open>
  The claim reads the response as a payload of at least six bytes that starts with the
  major version. After \<^verbatim>\<open>otp_status\<close> the response size is 0, and the first six bytes
  of the buffer are not that block: offset 0 keeps what it held.
\<close>

theorem status_payload_counterexample:
  "res_APDU_size (snd (otp_status ex_platform ex_empty)) = 0
   \<and> region (res_APDU (snd (otp_status ex_platform ex_empty))) 0 6
        \<noteq> [PICO_FIDO_VERSION_MAJOR ex_platform, PICO_FIDO_VERSION_MINOR ex_platform, 0,
            config_seq ex_empty, capability ex_empty, 0]"
proof -
  have "region (res_APDU (snd (otp_status ex_platform ex_empty))) 0 6 ! 0
          \<noteq> [PICO_FIDO_VERSION_MAJOR ex_platform, PICO_FIDO_VERSION_MINOR ex_platform, 0,
              config_seq ex_empty, capability ex_empty, 0] ! 0"
    by (simp add: otp_status_def Let_def ex_empty_def ex_platform_def)
  then have "region (res_APDU (snd (otp_status ex_platform ex_empty))) 0 6
        \<noteq> [PICO_FIDO_VERSION_MAJOR ex_platform, PICO_FIDO_VERSION_MINOR ex_platform, 0,
            config_seq ex_empty, capability ex_empty, 0]"
    by (rule contrapos_nn) (erule arg_cong)
  then show ?thesis by (simp add: otp_status_def Let_def)
qed

subsection \<open>C7: the sequence counter\<close>

lemma otp_select_seq:
  assumes "otp_select pf aid st = Some st'"
  shows "config_seq st' =
           (if file_has_data st EF_OTP_SLOT1 \<or> file_has_data st EF_OTP_SLOT2 then 1 else 0)"
  using assms
  by (auto simp add: otp_select_def Let_def search_dynamic_file_def split: if_splits)

lemma otp_select_files:
  assumes "otp_select pf aid st = Some st'"
  shows "files st' = files st"
  using assms
  by (auto simp add: otp_select_def Let_def split: if_splits)

lemma file_has_data_cong: "files st' = files st \<Longrightarrow> file_has_data st' ef = file_has_data st ef"
  by (simp add: file_has_data_def)

lemma cmd_otp_configure_cases:
  assumes p2: "P2 apdu = 0" and p1: "P1 apdu = 1 \<or> P1 apdu = 3"
    and res: "cmd_otp pf apdu st = Inr (SW_OK, st')"
    and ef: "ef = (if P1 apdu = 1 then EF_OTP_SLOT1 else EF_OTP_SLOT2)"
  shows "data apdu 48 = 0 \<and> data apdu 49 = 0 \<and> acc_code_mismatch apdu ef st = Inr False"
proof -
  have r: "data apdu 48 = 0 \<and> data apdu 49 = 0"
    using cmd_otp_wrong_data [OF p2 p1, of pf st] res by auto
  have "acc_code_mismatch apdu ef st = Inr False"
  proof (cases "acc_code_mismatch apdu ef st")
    case (Inl e)
    then show ?thesis
      using res p2 p1 r ef by (auto simp add: cmd_otp_def Let_def rfu_region file_new_def)
  next
    case (Inr b)
    then show ?thesis
      using res cmd_otp_denied [OF p2 p1, of st pf] r ef by (cases b) auto
  qed
  with r show ?thesis by simp
qed

lemma acc_code_ex_open_record: "acc_code (as_otp_config ex_open_record) = replicate 6 0"
  by (simp add: ex_open_record_def as_otp_config_def offsets sizes)

lemma length_ex_open_record: "length ex_open_record = 52"
  by (simp add: ex_open_record_def)

lemma ex_open_record_nonzero: "list_ex (\<lambda>b. b \<noteq> 0) ex_open_record"
  by (simp add: ex_open_record_def)

lemma ex_delete_zero: "\<not> has_nonzero (region (data ex_delete) 0 otp_config_size)"
  by (simp add: has_nonzero_region ex_delete_def)

lemma ex_delete_match:
  assumes "files st EF_OTP_SLOT1 = Some ex_open_record"
  shows "acc_code_mismatch ex_delete EF_OTP_SLOT1 st = Inr False"
  using assms
  by (simp add: acc_code_mismatch_def file_has_data_def file_get_data_def
      ex_open_record_nonzero length_ex_open_record otp_config_size_52
      acc_code_ex_open_record ex_delete_def region_zero sizes)

lemma ex_delete_run:
  assumes "files st EF_OTP_SLOT1 = Some ex_open_record"
  shows "cmd_otp pf ex_delete st =
           Inr (otp_status pf
                  (if \<not> file_has_data (delete_file EF_OTP_SLOT1 st) EF_OTP_SLOT1
                      \<and> \<not> file_has_data (delete_file EF_OTP_SLOT1 st) EF_OTP_SLOT2
                   then (delete_file EF_OTP_SLOT1 st)\<lparr>config_seq := 0\<rparr>
                   else delete_file EF_OTP_SLOT1 st))"
  by (rule cmd_otp_delete [OF _ _ _ _ _ ex_delete_match [OF assms] ex_delete_zero])
     (simp_all add: ex_delete_def)

lemma ex_delete_both:
  "cmd_otp ex_platform ex_delete ex_both =
     Inr (otp_status ex_platform (delete_file EF_OTP_SLOT1 ex_both))"
  using ex_delete_run [of ex_both ex_platform]
  by (simp add: ex_both_def ex_empty_def delete_file_def file_has_data_def
      ex_open_record_nonzero)

lemma ex_delete_only1:
  "cmd_otp ex_platform ex_delete ex_only1 =
     Inr (otp_status ex_platform ((delete_file EF_OTP_SLOT1 ex_only1)\<lparr>config_seq := 0\<rparr>))"
  using ex_delete_run [of ex_only1 ex_platform]
  by (simp add: ex_only1_def ex_empty_def delete_file_def file_has_data_def)

text \<open>
  C7, as the source has it. A selection that matches recomputes the counter as 1 if
  either slot holds data and 0 otherwise. A configure command that succeeds and writes
  (its first 52 data bytes are not all zero) adds exactly 1 to the counter, an 8-bit
  value, so modulo 256. A delete that succeeds (the first 52 data bytes are all zero)
  leaves the counter as it is when a slot still holds data afterwards, and sets it to 0
  when both slots are empty afterwards.
\<close>

theorem sequence_counter_updates:
  "(otp_select pf aid st = Some st' \<longrightarrow>
      config_seq st' =
        (if file_has_data st EF_OTP_SLOT1 \<or> file_has_data st EF_OTP_SLOT2 then 1 else 0))
   \<and> (P2 apdu = 0 \<and> (P1 apdu = 1 \<or> P1 apdu = 3)
        \<and> cmd_otp pf apdu st = Inr (SW_OK, st'')
        \<and> has_nonzero (region (data apdu) 0 otp_config_size) \<longrightarrow>
      config_seq st'' = config_seq st + 1)
   \<and> (P2 apdu = 0 \<and> (P1 apdu = 1 \<or> P1 apdu = 3)
        \<and> cmd_otp pf apdu st = Inr (SW_OK, st'')
        \<and> \<not> has_nonzero (region (data apdu) 0 otp_config_size) \<longrightarrow>
      config_seq st'' =
        (if \<not> file_has_data st'' EF_OTP_SLOT1 \<and> \<not> file_has_data st'' EF_OTP_SLOT2
         then 0 else config_seq st))"
proof (intro conjI impI)
  assume "otp_select pf aid st = Some st'"
  then show "config_seq st' =
        (if file_has_data st EF_OTP_SLOT1 \<or> file_has_data st EF_OTP_SLOT2 then 1 else 0)"
    by (rule otp_select_seq)
next
  let ?ef = "if P1 apdu = 1 then EF_OTP_SLOT1 else EF_OTP_SLOT2"
  assume a: "P2 apdu = 0 \<and> (P1 apdu = 1 \<or> P1 apdu = 3)
        \<and> cmd_otp pf apdu st = Inr (SW_OK, st'')
        \<and> has_nonzero (region (data apdu) 0 otp_config_size)"
  then have c: "data apdu 48 = 0 \<and> data apdu 49 = 0 \<and> acc_code_mismatch apdu ?ef st = Inr False"
    using cmd_otp_configure_cases [of apdu pf st st'' ?ef] by simp
  have "cmd_otp pf apdu st =
           Inr (otp_status pf
                  ((flash_write_data_to_file ?ef (region (data apdu) 0 otp_config_size) st)
                     \<lparr>config_seq := config_seq st + 1\<rparr>))"
    using a c by (intro cmd_otp_write) simp_all
  with a have "st'' = snd (otp_status pf
                  ((flash_write_data_to_file ?ef (region (data apdu) 0 otp_config_size) st)
                     \<lparr>config_seq := config_seq st + 1\<rparr>))"
    by (metis Inr_inject snd_conv)
  then show "config_seq st'' = config_seq st + 1" by simp
next
  let ?ef = "if P1 apdu = 1 then EF_OTP_SLOT1 else EF_OTP_SLOT2"
  let ?d = "delete_file ?ef st"
  let ?r = "if \<not> file_has_data ?d EF_OTP_SLOT1 \<and> \<not> file_has_data ?d EF_OTP_SLOT2
                   then ?d\<lparr>config_seq := 0\<rparr> else ?d"
  assume a: "P2 apdu = 0 \<and> (P1 apdu = 1 \<or> P1 apdu = 3)
        \<and> cmd_otp pf apdu st = Inr (SW_OK, st'')
        \<and> \<not> has_nonzero (region (data apdu) 0 otp_config_size)"
  then have c: "data apdu 48 = 0 \<and> data apdu 49 = 0 \<and> acc_code_mismatch apdu ?ef st = Inr False"
    using cmd_otp_configure_cases [of apdu pf st st'' ?ef] by simp
  have "cmd_otp pf apdu st = Inr (otp_status pf ?r)"
    using a c by (intro cmd_otp_delete) simp_all
  with a have st'': "st'' = snd (otp_status pf ?r)"
    by (metis Inr_inject snd_conv)
  have f: "files st'' = files ?d"
    unfolding st'' by (simp add: delete_file_def)
  have h: "file_has_data st'' EF_OTP_SLOT1 = file_has_data ?d EF_OTP_SLOT1"
      "file_has_data st'' EF_OTP_SLOT2 = file_has_data ?d EF_OTP_SLOT2"
    using f by (simp_all add: file_has_data_def)
  have "config_seq st'' = config_seq ?r"
    unfolding st'' by simp
  also have "\<dots> = (if \<not> file_has_data ?d EF_OTP_SLOT1 \<and> \<not> file_has_data ?d EF_OTP_SLOT2
         then 0 else config_seq st)"
    by (simp add: delete_file_def)
  finally show "config_seq st'' =
        (if \<not> file_has_data st'' EF_OTP_SLOT1 \<and> \<not> file_has_data st'' EF_OTP_SLOT2
         then 0 else config_seq st)"
    unfolding h .
qed

lemma ex_select: "otp_select ex_platform ex_aid ex_slot1 \<noteq> None"
  by (simp add: otp_select_def Let_def ex_aid_def otp_aid_def)

theorem sequence_counter_updates_witness:
  "map_option config_seq (otp_select ex_platform ex_aid ex_slot1) = Some 1
   \<and> seq_after (cmd_otp ex_platform ex_configure ex_empty) = Some (config_seq ex_empty + 1)
   \<and> seq_after (cmd_otp ex_platform ex_delete ex_only1) = Some 0"
proof -
  obtain s1 where s1: "otp_select ex_platform ex_aid ex_slot1 = Some s1"
    using ex_select by blast
  have mm: "acc_code_mismatch ex_configure EF_OTP_SLOT1 ex_empty = Inr False"
    using ex_empty_no_data by (simp add: acc_code_mismatch_def)
  have "cmd_otp ex_platform ex_configure ex_empty =
          Inr (otp_status ex_platform
                  ((flash_write_data_to_file EF_OTP_SLOT1
                      (region (data ex_configure) 0 otp_config_size) ex_empty)
                     \<lparr>config_seq := config_seq ex_empty + 1\<rparr>))"
    by (rule cmd_otp_write [OF _ _ _ _ _ mm ex_configure_nonzero])
       (simp_all add: ex_configure_def)
  then obtain s2 where s2: "cmd_otp ex_platform ex_configure ex_empty = Inr (SW_OK, s2)"
    using otp_status_eq by metis
  obtain s3 where s3: "cmd_otp ex_platform ex_delete ex_only1 = Inr (SW_OK, s3)"
    using ex_delete_only1 otp_status_eq by metis
  have "s3 = snd (otp_status ex_platform
                     ((delete_file EF_OTP_SLOT1 ex_only1)\<lparr>config_seq := 0\<rparr>))"
    using s3 unfolding ex_delete_only1 by (metis Inr_inject snd_conv)
  then have f3: "files s3 = (\<lambda>f. None)"
    by (simp add: delete_file_def ex_only1_def ex_empty_def fun_eq_iff)
  have e3: "\<not> file_has_data s3 EF_OTP_SLOT1 \<and> \<not> file_has_data s3 EF_OTP_SLOT2"
    by (simp add: file_has_data_def f3)
  have "config_seq s1 = 1"
    using sequence_counter_updates [where pf = ex_platform and aid = ex_aid and st = ex_slot1
        and st' = s1]
      s1 ex_slot1_has_data by simp
  moreover have "config_seq s2 = config_seq ex_empty + 1"
    using sequence_counter_updates [where pf = ex_platform and apdu = ex_configure
        and st = ex_empty and st'' = s2]
      s2 ex_configure_nonzero by (simp add: ex_configure_def)
  moreover have "config_seq s3 = 0"
    using sequence_counter_updates [where pf = ex_platform and apdu = ex_delete
        and st = ex_only1 and st'' = s3]
      s3 ex_delete_zero e3 by (simp add: ex_delete_def)
  ultimately show ?thesis
    using s1 s2 s3 by (simp add: seq_after_def)
qed

text \<open>
  The claim has every successful delete add 1 and no command decrease the counter.
  With both slots holding data and the counter at 5, the delete of slot 1 succeeds,
  empties the slot and leaves the counter at 5; with only slot 1 holding data and the
  counter at 5, the delete succeeds and the counter falls to 0.
\<close>

theorem sequence_counter_counterexample:
  "config_seq ex_both = 5
   \<and> sw_after (cmd_otp ex_platform ex_delete ex_both) = Some SW_OK
   \<and> slot_after EF_OTP_SLOT1 (cmd_otp ex_platform ex_delete ex_both) = None
   \<and> seq_after (cmd_otp ex_platform ex_delete ex_both) = Some 5
   \<and> config_seq ex_only1 = 5
   \<and> sw_after (cmd_otp ex_platform ex_delete ex_only1) = Some SW_OK
   \<and> seq_after (cmd_otp ex_platform ex_delete ex_only1) = Some 0"
  unfolding ex_delete_both ex_delete_only1
  by (simp add: sw_after_def slot_after_def seq_after_def file_get_data_def delete_file_def
      ex_both_def ex_only1_def ex_empty_def)

subsection \<open>The moving factor: bits and bytes\<close>






lemma length_imf_bytes [simp]: "length (imf_bytes w) = 8"
  by (simp add: imf_bytes_def)





lemma uid_imf_bit31: "\<not> bit (uid_imf bs) 31"
  by (auto simp add: uid_imf_def bit_push_bit_iff bit_or_iff bit_ucast_iff
      dest: bit_imp_le_length)


















subsection \<open>One press of an HOTP slot\<close>

lemma file_get_size_Some: "file_get_data st ef = Some bs \<Longrightarrow> file_get_size st ef = length bs"
  by (simp add: file_get_size_def file_get_data_def)

lemma hotp_branch_ok:
  assumes r: "resolve_imf (file_get_size st ef) bs = Inr imf"
    and ok: "fst (calculate_oath pf 1 (tmp_key_of k (as_otp_config bs)) (imf_bytes imf)
                    (res_APDU st, 0)) = CCID_OK pf"
  shows "\<exists>st'. hotp_branch pf k ef bs st = Inr st'
           \<and> files st' = (files st)(ef := Some (take otp_config_size bs @ imf_bytes (imf + 1)))
           \<and> config_seq st' = config_seq st
           \<and> oath_calls st' =
               oath_calls st @ [(1, tmp_key_of k (as_otp_config bs), imf_bytes imf)]"
proof -
  obtain ret buf sz where c:
    "calculate_oath pf 1 (tmp_key_of k (as_otp_config bs)) (imf_bytes imf) (res_APDU st, 0)
       = (ret, (buf, sz))"
    by (metis prod.exhaust)
  with ok have ret: "ret = CCID_OK pf" by simp
  show ?thesis
    by (simp add: hotp_branch_def Let_def r c ret add_keyboard_buffer_def
        append_keyboard_buffer_def flash_write_data_to_file_def)
qed

lemma hotp_branch_failed:
  assumes r: "resolve_imf (file_get_size st ef) bs = Inr imf"
    and ok: "fst (calculate_oath pf 1 (tmp_key_of k (as_otp_config bs)) (imf_bytes imf)
                    (res_APDU st, 0)) \<noteq> CCID_OK pf"
  shows "\<exists>st'. hotp_branch pf k ef bs st = Inr st'
           \<and> files st' = files st
           \<and> oath_calls st' =
               oath_calls st @ [(1, tmp_key_of k (as_otp_config bs), imf_bytes imf)]"
proof -
  obtain ret buf sz where c:
    "calculate_oath pf 1 (tmp_key_of k (as_otp_config bs)) (imf_bytes imf) (res_APDU st, 0)
       = (ret, (buf, sz))"
    by (metis prod.exhaust)
  with ok have ret: "ret \<noteq> CCID_OK pf" by simp
  show ?thesis
    by (simp add: hotp_branch_def Let_def r c ret add_keyboard_buffer_def
        append_keyboard_buffer_def flash_write_data_to_file_def)
qed

lemma button_hotp:
  assumes "file_get_data st (if slot = 1 then EF_OTP_SLOT1 else EF_OTP_SLOT2) = Some bs"
    and "otp_config_size \<le> length bs"
    and "tkt_flags (as_otp_config bs) AND OATH_HOTP \<noteq> 0"
  shows "otp_button_pressed pf k slot st =
           hotp_branch pf k (if slot = 1 then EF_OTP_SLOT1 else EF_OTP_SLOT2) bs st"
  using assms by (simp add: otp_button_pressed_def search_dynamic_file_def Let_def)

lemma tkt_flags_append:
  "length rec = otp_config_size \<Longrightarrow> tkt_flags (as_otp_config (rec @ ext)) = tkt_flags (as_otp_config rec)"
  by (simp add: as_otp_config_def otp_config_size_52 offsets sizes nth_append)



lemma length_ex_hotp_record: "length ex_hotp_record = otp_config_size"
  by (simp add: ex_hotp_record_def otp_config_size_52)

lemma tkt_ex_hotp_record: "tkt_flags (as_otp_config ex_hotp_record) AND OATH_HOTP \<noteq> 0"
  by (simp add: ex_hotp_record_def as_otp_config_def offsets sizes OATH_HOTP_def nth_append)


lemma ex_resolve_high:
  "resolve_imf 60 (ex_hotp_record @ [0, 0, 0, 0, 0x80, 0, 0, 0]) = Inr 0xFFFFFFFF80000000"
  by (simp add: resolve_imf_def Let_def otp_config_size_52 length_ex_hotp_record
      int_to_u64_def byte_to_int_def byte_to_u64_def nth_append)


lemma imf_bytes_high: "imf_bytes 0xFFFFFFFF80000000 = [0xff, 0xff, 0xff, 0xff, 0x80, 0, 0, 0]"
  by (simp add: imf_bytes_def drop_bit_eq_div)


lemma big_endian_high: "big_endian [0, 0, 0, 0, 0x80, 0, 0, 0] = 0x80000000"
  by (simp add: big_endian_def)

lemma ex_platform_ok:
  "fst (calculate_oath ex_platform t key chal r) = CCID_OK ex_platform"
  by (simp add: ex_platform_def)

lemma ex_hotp_data: "file_get_data (ex_hotp ext) EF_OTP_SLOT1 = Some (ex_hotp_record @ ext)"
  by (simp add: file_get_data_def ex_hotp_def)

lemma ex_press_hotp:
  "otp_button_pressed pf k 1 (ex_hotp [a, b, c, d, e, f, g, h]) =
     hotp_branch pf k EF_OTP_SLOT1 (ex_hotp_record @ [a, b, c, d, e, f, g, h])
       (ex_hotp [a, b, c, d, e, f, g, h])"
  using button_hotp [of "ex_hotp [a, b, c, d, e, f, g, h]" 1
      "ex_hotp_record @ [a, b, c, d, e, f, g, h]" pf k]
    tkt_ex_hotp_record
  by (simp add: ex_hotp_data length_ex_hotp_record tkt_flags_append)

lemma ex_hotp_size: "file_get_size (ex_hotp [a, b, c, d, e, f, g, h]) EF_OTP_SLOT1 = 60"
  by (simp add: file_get_size_def ex_hotp_def length_ex_hotp_record otp_config_size_52)

subsection \<open>C2: presses and the persisted moving factor\<close>







subsection \<open>C6: a press on an empty slot\<close>

text \<open>
  What the source does for a slot whose stored bytes are there and all zero: both flag
  bytes are zero, so the press takes the last, empty branch.
\<close>

lemma press_zero_record_noop:
  assumes "file_get_data st (if slot = 1 then EF_OTP_SLOT1 else EF_OTP_SLOT2) = Some bs"
    and "otp_config_size \<le> length bs"
    and "\<not> has_nonzero bs"
  shows "otp_button_pressed pf tmp_key1 slot st = Inr st"
proof -
  have z: "\<And>i. i < length bs \<Longrightarrow> bs ! i = 0"
    using assms(3) by (auto simp add: has_nonzero_iff)
  have "tkt_flags (as_otp_config bs) = 0" "cfg_flags (as_otp_config bs) = 0"
    using assms(2) z by (simp_all add: as_otp_config_def otp_config_size_52 offsets sizes)
  then show ?thesis
    using assms(1,2) by (simp add: otp_button_pressed_def search_dynamic_file_def Let_def)
qed

text \<open>
  C6, at the input where the source fails. The claim has a press on an empty slot do
  nothing and complete without error. \<^verbatim>\<open>otp_button_pressed\<close> has no test for an empty
  slot: it reads \<^verbatim>\<open>otp_config->tkt_flags\<close> through the pointer that \<^verbatim>\<open>file_get_data\<close>
  returns. For a slot that was never written there are no stored bytes, and the read
  goes through a null pointer.
\<close>

theorem press_empty_slot_null:
  "file_get_data ex_empty EF_OTP_SLOT1 = None
   \<and> \<not> file_has_data ex_empty EF_OTP_SLOT1
   \<and> otp_button_pressed ex_platform 0 1 ex_empty = Inl NullPointer"
  by (simp add: otp_button_pressed_def search_dynamic_file_def file_get_data_def
      file_has_data_def ex_empty_def)

text \<open>At this input the press is not the no-op of the claim.\<close>

theorem press_empty_slot_null_witness:
  "otp_button_pressed ex_platform 0 1 ex_empty \<noteq> Inr ex_empty"
  using press_empty_slot_null by simp

subsection \<open>C3: how the moving factor is resolved\<close>

lemma ex_press_high:
  "chals_after (otp_button_pressed ex_platform 0 1 (ex_hotp [0, 0, 0, 0, 0x80, 0, 0, 0]))
     = [ [0xff, 0xff, 0xff, 0xff, 0x80, 0, 0, 0] ]"
proof -
  let ?s = "ex_hotp [0, 0, 0, 0, 0x80, 0, 0, 0]"
  have r: "resolve_imf (file_get_size ?s EF_OTP_SLOT1) (ex_hotp_record @ [0, 0, 0, 0, 0x80, 0, 0, 0])
             = Inr 0xFFFFFFFF80000000"
    by (simp only: ex_hotp_size ex_resolve_high)
  obtain s' where s': "hotp_branch ex_platform 0 EF_OTP_SLOT1
                          (ex_hotp_record @ [0, 0, 0, 0, 0x80, 0, 0, 0]) ?s = Inr s'"
      and c: "oath_calls s' = oath_calls ?s @
                [(1, tmp_key_of 0 (as_otp_config (ex_hotp_record @ [0, 0, 0, 0, 0x80, 0, 0, 0])),
                  imf_bytes 0xFFFFFFFF80000000)]"
    using hotp_branch_ok [OF r, of ex_platform 0] ex_platform_ok by blast
  show ?thesis
    unfolding ex_press_hotp s'
    by (simp add: chals_after_def c ex_hotp_def ex_empty_def imf_bytes_high)
qed

text \<open>
  C3, at the input where the source fails. The claim has the eight bytes after the
  record read verbatim as a big-endian unsigned integer, whatever they hold. The source
  shifts the fifth of them as an \<^verbatim>\<open>int\<close>; with the extension 00 00 00 00 80 00 00 00,
  whose big-endian value is 0x80000000, the shifted value is negative and its conversion
  to 64 bits sets the upper half: the moving factor is 0xffffffff80000000, and the
  challenge handed to \<^verbatim>\<open>calculate_oath\<close> is ff ff ff ff 80 00 00 00.
\<close>

theorem moving_factor_sign_extension:
  "file_get_data (ex_hotp [0, 0, 0, 0, 0x80, 0, 0, 0]) EF_OTP_SLOT1
     = Some (ex_hotp_record @ [0, 0, 0, 0, 0x80, 0, 0, 0])
   \<and> big_endian [0, 0, 0, 0, 0x80, 0, 0, 0] = 0x80000000
   \<and> resolve_imf 60 (ex_hotp_record @ [0, 0, 0, 0, 0x80, 0, 0, 0]) = Inr 0xFFFFFFFF80000000
   \<and> chals_after (otp_button_pressed ex_platform 0 1 (ex_hotp [0, 0, 0, 0, 0x80, 0, 0, 0]))
       = [ [0xff, 0xff, 0xff, 0xff, 0x80, 0, 0, 0] ]"
  using ex_hotp_data [of "[0, 0, 0, 0, 0x80, 0, 0, 0]"] big_endian_high ex_resolve_high
    ex_press_high
  by simp

text \<open>At this input the resolved moving factor is not the big-endian value of the bytes.\<close>

theorem moving_factor_sign_extension_witness:
  "resolve_imf 60 (ex_hotp_record @ [0, 0, 0, 0, 0x80, 0, 0, 0])
     \<noteq> Inr (of_nat (big_endian [0, 0, 0, 0, 0x80, 0, 0, 0]))"
  using moving_factor_sign_extension by simp

subsection \<open>C4: the key handed to the OATH primitive\<close>

lemma aes_key_append:
  "length rec = otp_config_size \<Longrightarrow>
     aes_key (as_otp_config (rec @ ext)) = aes_key (as_otp_config rec)"
  by (simp add: as_otp_config_def otp_config_size_52 offsets sizes)

lemma length_aes_key:
  "otp_config_size \<le> length bs \<Longrightarrow> length (aes_key (as_otp_config bs)) = 16"
  by (simp add: as_otp_config_def otp_config_size_52 offsets sizes)

lemma resolve_imf_defined:
  assumes "length bs = otp_config_size \<or> otp_config_size + 8 \<le> length bs"
  shows "\<exists>imf. resolve_imf (length bs) bs = Inr imf"
  using assms by (auto simp add: resolve_imf_def Let_def)

lemma hotp_branch_calls:
  assumes r: "resolve_imf (file_get_size st ef) bs = Inr imf"
  shows "\<exists>st'. hotp_branch pf k ef bs st = Inr st'
           \<and> oath_calls st' =
               oath_calls st @ [(1, tmp_key_of k (as_otp_config bs), imf_bytes imf)]"
proof (cases "fst (calculate_oath pf 1 (tmp_key_of k (as_otp_config bs)) (imf_bytes imf)
                    (res_APDU st, 0)) = CCID_OK pf")
  case True
  then show ?thesis using hotp_branch_ok [OF r] by blast
next
  case False
  then show ?thesis using hotp_branch_failed [OF r] by blast
qed

text \<open>
  What the source does establish on a press of an HOTP-mode slot: \<^verbatim>\<open>calculate_oath\<close> is
  called once, with a key of 18 bytes whose first byte is 0x01 and whose last 16 bytes are
  the stored key, bytes 22 to 37 of the record.
\<close>

lemma hotp_key_layout:
  assumes ef: "ef = (if slot = 1 then EF_OTP_SLOT1 else EF_OTP_SLOT2)"
    and stored: "file_get_data st ef = Some bs"
    and len: "length bs = otp_config_size \<or> otp_config_size + 8 \<le> length bs"
    and hotp: "tkt_flags (as_otp_config bs) AND OATH_HOTP \<noteq> 0"
  shows "\<exists>st' key chal. otp_button_pressed pf tmp_key1 slot st = Inr st'
           \<and> oath_calls st' = oath_calls st @ [(1, key, chal)]
           \<and> length key = 18 \<and> key ! 0 = 0x01
           \<and> drop 2 key = aes_key (as_otp_config bs)
           \<and> aes_key (as_otp_config bs) = take 16 (drop 22 bs)"
proof -
  have l52: "otp_config_size \<le> length bs" using len by auto
  have b: "otp_button_pressed pf tmp_key1 slot st = hotp_branch pf tmp_key1 ef bs st"
    unfolding ef by (rule button_hotp) (use stored ef l52 hotp in simp_all)
  obtain imf where r: "resolve_imf (file_get_size st ef) bs = Inr imf"
    using resolve_imf_defined [OF len] file_get_size_Some [OF stored] by auto
  obtain st' where s: "hotp_branch pf tmp_key1 ef bs st = Inr st'"
    and c: "oath_calls st' =
               oath_calls st @ [(1, tmp_key_of tmp_key1 (as_otp_config bs), imf_bytes imf)]"
    using hotp_branch_calls [OF r] by blast
  let ?key = "tmp_key_of tmp_key1 (as_otp_config bs)"
  have "length ?key = 18" "?key ! 0 = 0x01" "drop 2 ?key = aes_key (as_otp_config bs)"
    using length_aes_key [OF l52] by (simp_all add: tmp_key_of_def)
  moreover have "aes_key (as_otp_config bs) = take 16 (drop 22 bs)"
    by (simp add: as_otp_config_def offsets sizes)
  ultimately show ?thesis using b s c by auto
qed

text \<open>
  C4, at the input where the source fails. The claim has the 18 bytes be 0x01, 0x00 and
  the stored key. The source declares \<^verbatim>\<open>tmp_key\<close> without an initialiser, assigns
  \<^verbatim>\<open>tmp_key[0]\<close> and copies the key to \<^verbatim>\<open>tmp_key + 2\<close>; \<^verbatim>\<open>tmp_key[1]\<close> is never
  assigned. With 0xff left on the stack in that place, a press of a slot whose key is
  sixteen times 0x0b hands \<^verbatim>\<open>calculate_oath\<close> the key 01 ff 0b ... 0b, whose second byte
  is not 0x00.
\<close>

theorem hotp_key_second_byte:
  "keys_after (otp_button_pressed ex_platform 0xff 1 (ex_hotp []))
     = [ [0x01, 0xff, 0x0b, 0x0b, 0x0b, 0x0b, 0x0b, 0x0b, 0x0b, 0x0b,
         0x0b, 0x0b, 0x0b, 0x0b, 0x0b, 0x0b, 0x0b, 0x0b] ]
   \<and> [0x01, 0xff, 0x0b, 0x0b, 0x0b, 0x0b, 0x0b, 0x0b, 0x0b, 0x0b,
         0x0b, 0x0b, 0x0b, 0x0b, 0x0b, 0x0b, 0x0b, 0x0b :: byte] ! 1 \<noteq> 0x00"
proof -
  have d: "file_get_data (ex_hotp []) EF_OTP_SLOT1 = Some ex_hotp_record"
    using ex_hotp_data [of "[]"] by simp
  have b: "otp_button_pressed ex_platform 0xff 1 (ex_hotp [])
             = hotp_branch ex_platform 0xff EF_OTP_SLOT1 ex_hotp_record (ex_hotp [])"
    using button_hotp [of "ex_hotp []" 1 ex_hotp_record ex_platform "0xff"]
      d tkt_ex_hotp_record length_ex_hotp_record by simp
  obtain imf where r: "resolve_imf (file_get_size (ex_hotp []) EF_OTP_SLOT1) ex_hotp_record = Inr imf"
    using resolve_imf_defined [of ex_hotp_record] file_get_size_Some [OF d]
      length_ex_hotp_record by auto
  obtain st' where s: "hotp_branch ex_platform 0xff EF_OTP_SLOT1 ex_hotp_record (ex_hotp []) = Inr st'"
    and c: "oath_calls st' = oath_calls (ex_hotp []) @
              [(1, tmp_key_of 0xff (as_otp_config ex_hotp_record), imf_bytes imf)]"
    using hotp_branch_calls [OF r] by blast
  have k: "tmp_key_of 0xff (as_otp_config ex_hotp_record)
             = [0x01, 0xff, 0x0b, 0x0b, 0x0b, 0x0b, 0x0b, 0x0b, 0x0b, 0x0b,
                0x0b, 0x0b, 0x0b, 0x0b, 0x0b, 0x0b, 0x0b, 0x0b]"
    by (simp add: tmp_key_of_def as_otp_config_def ex_hotp_record_def offsets sizes
        eval_nat_numeral)
  show ?thesis
    unfolding b s by (simp add: keys_after_def c k ex_hotp_def ex_empty_def)
qed

text \<open>At this input the key of the call is not 0x01, 0x00 and the stored key.\<close>

theorem hotp_key_second_byte_witness:
  "keys_after (otp_button_pressed ex_platform 0xff 1 (ex_hotp []))
     \<noteq> [0x01 # 0x00 # aes_key (as_otp_config ex_hotp_record)]"
  using hotp_key_second_byte by simp

subsection \<open>C9: the short ticket\<close>

lemma as_otp_config_halved:
  assumes "otp_config_size \<le> length bs"
  shows "fixed_size (as_otp_config (bs[off_fixed_size := v])) = v"
    and "tkt_flags (as_otp_config (bs[off_fixed_size := v])) = tkt_flags (as_otp_config bs)"
    and "cfg_flags (as_otp_config (bs[off_fixed_size := v])) = cfg_flags (as_otp_config bs)"
  using assms by (simp_all add: as_otp_config_def otp_config_size_52 offsets sizes)

lemma button_ticket:
  assumes "file_get_data st (if slot = 1 then EF_OTP_SLOT1 else EF_OTP_SLOT2) = Some bs"
    and "otp_config_size \<le> length bs"
    and "tkt_flags (as_otp_config bs) AND OATH_HOTP = 0"
    and "cfg_flags (as_otp_config bs) AND SHORT_TICKET \<noteq> 0"
  shows "otp_button_pressed pf k slot st =
           ticket_branch (if slot = 1 then EF_OTP_SLOT1 else EF_OTP_SLOT2) bs st"
  using assms by (simp add: otp_button_pressed_def search_dynamic_file_def Let_def)

lemma unat_half: "unat ((v :: byte) div 2) = unat v div 2"
  by (simp add: unat_div)

lemma short_ticket_branch:
  assumes len: "otp_config_size \<le> length bs"
    and short: "cfg_flags (as_otp_config bs) AND SHORT_TICKET \<noteq> 0"
    and fs: "unat (fixed_size (as_otp_config bs)) div 2 \<le> FIXED_SIZE"
  shows "\<exists>st'. ticket_branch ef bs st = Inr st'
           \<and> keyboard st' = keyboard st @
                (Add_keyboard
                   (take (unat (fixed_size (as_otp_config bs)) div 2)
                      (fixed_data (as_otp_config bs))) False
                 # (if tkt_flags (as_otp_config bs) AND APPEND_CR \<noteq> 0
                    then [Append_keyboard [0x28] ] else []))"
proof -
  let ?v = "fixed_size (as_otp_config bs) div 2"
  let ?bs' = "bs[off_fixed_size := ?v]"
  have n: "unat ?v \<le> 16" using fs by (simp add: unat_half sizes)
  then have n': "unat ?v \<le> length ?bs'" using len by (simp add: otp_config_size_52)
  have t: "take (unat ?v) ?bs' = take (unat ?v) (fixed_data (as_otp_config bs))"
    using n by (simp add: as_otp_config_def sizes offsets min_def)
  show ?thesis
    using short n' t
    by (simp add: ticket_branch_def Let_def as_otp_config_halved [OF len]
        add_keyboard_buffer_def append_keyboard_buffer_def unat_half)
qed

lemma ex_ticket_fields:
  "tkt_flags (as_otp_config ex_ticket_record) = 0x20"
  "cfg_flags (as_otp_config ex_ticket_record) = 0x02"
  "fixed_size (as_otp_config ex_ticket_record) = 16"
  "fixed_data (as_otp_config ex_ticket_record) =
     [0x61, 0x62, 0x63, 0x64, 0x65, 0x66, 0x67, 0x68,
      0x69, 0x6a, 0x6b, 0x6c, 0x6d, 0x6e, 0x6f, 0x70]"
  by (simp_all add: as_otp_config_def ex_ticket_record_def offsets sizes nth_append)

lemma ex_slot1_data: "file_get_data ex_slot1 EF_OTP_SLOT1 = Some ex_ticket_record"
  by (simp add: file_get_data_def ex_slot1_def)

lemma ex_slot1_press:
  "otp_button_pressed ex_platform 0 1 ex_slot1 = ticket_branch EF_OTP_SLOT1 ex_ticket_record ex_slot1"
  using button_ticket [of ex_slot1 1 ex_ticket_record ex_platform 0] ex_slot1_data
  by (simp add: length_ex_ticket_record otp_config_size_52 ex_ticket_fields
      OATH_HOTP_def SHORT_TICKET_def)

text \<open>
  C9, as the source has it. Take a press on a slot whose record has the HOTP bit clear
  and the short-ticket bit set, with \<^verbatim>\<open>fixed_size\<close> at most 33, so that its half fits
  the 16 bytes of \<^verbatim>\<open>fixed_data\<close>. The press hands the keystroke channel the first
  \<open>fixed_size div 2\<close> bytes of \<^verbatim>\<open>fixed_data\<close>, verbatim and not encoded, where
  \<^verbatim>\<open>fixed_size\<close> is the stored value at the time of the press; when the
  \<^verbatim>\<open>APPEND_CR\<close> bit of \<^verbatim>\<open>tkt_flags\<close> is set it then appends the one byte 0x28, and
  nothing else.
\<close>

theorem short_ticket_emission:
  assumes ef: "ef = (if slot = 1 then EF_OTP_SLOT1 else EF_OTP_SLOT2)"
    and stored: "file_get_data st ef = Some bs"
    and len: "otp_config_size \<le> length bs"
    and not_hotp: "tkt_flags (as_otp_config bs) AND OATH_HOTP = 0"
    and short: "cfg_flags (as_otp_config bs) AND SHORT_TICKET \<noteq> 0"
    and fs: "unat (fixed_size (as_otp_config bs)) div 2 \<le> FIXED_SIZE"
  shows "\<exists>st'. otp_button_pressed pf tmp_key1 slot st = Inr st'
           \<and> keyboard st' = keyboard st @
                (Add_keyboard
                   (take (unat (fixed_size (as_otp_config bs)) div 2)
                      (fixed_data (as_otp_config bs))) False
                 # (if tkt_flags (as_otp_config bs) AND APPEND_CR \<noteq> 0
                    then [Append_keyboard [0x28] ] else []))"
proof -
  have "otp_button_pressed pf tmp_key1 slot st = ticket_branch ef bs st"
    unfolding ef by (rule button_ticket) (use stored ef len not_hotp short in simp_all)
  then show ?thesis using short_ticket_branch [OF len short fs] by simp
qed

theorem short_ticket_emission_witness:
  "file_get_data ex_slot1 EF_OTP_SLOT1 = Some ex_ticket_record
   \<and> cfg_flags (as_otp_config ex_ticket_record) AND SHORT_TICKET \<noteq> 0
   \<and> (\<exists>st'. otp_button_pressed ex_platform 0 1 ex_slot1 = Inr st'
          \<and> keyboard st' =
               [Add_keyboard [0x61, 0x62, 0x63, 0x64, 0x65, 0x66, 0x67, 0x68] False,
                Append_keyboard [0x28] ])"
  using short_ticket_emission [of EF_OTP_SLOT1 1 ex_slot1 ex_ticket_record ex_platform 0]
    ex_slot1_data
  by (simp add: length_ex_ticket_record otp_config_size_52 ex_ticket_fields
      OATH_HOTP_def SHORT_TICKET_def APPEND_CR_def sizes ex_slot1_def ex_empty_def)

text \<open>
  The claim has the emitted bytes be exactly the first half of the ticket. For a record
  with the short-ticket bit, \<^verbatim>\<open>fixed_size\<close> 16 and \<^verbatim>\<open>APPEND_CR\<close>, the channel gets the
  first 8 bytes of \<^verbatim>\<open>fixed_data\<close> and then the byte 0x28.
\<close>

theorem short_ticket_terminator_counterexample:
  "cfg_flags (as_otp_config ex_ticket_record) AND SHORT_TICKET \<noteq> 0
   \<and> tkt_flags (as_otp_config ex_ticket_record) AND OATH_HOTP = 0
   \<and> unat (fixed_size (as_otp_config ex_ticket_record)) div 2 = 8
   \<and> keyboard_after (otp_button_pressed ex_platform 0 1 ex_slot1)
       = [Add_keyboard [0x61, 0x62, 0x63, 0x64, 0x65, 0x66, 0x67, 0x68] False,
          Append_keyboard [0x28] ]
   \<and> keyboard_after (otp_button_pressed ex_platform 0 1 ex_slot1)
       \<noteq> [Add_keyboard (take 8 (fixed_data (as_otp_config ex_ticket_record))) False]"
proof -
  obtain st' where s: "ticket_branch EF_OTP_SLOT1 ex_ticket_record ex_slot1 = Inr st'"
    and k: "keyboard st' = keyboard ex_slot1 @
                (Add_keyboard
                   (take (unat (fixed_size (as_otp_config ex_ticket_record)) div 2)
                      (fixed_data (as_otp_config ex_ticket_record))) False
                 # (if tkt_flags (as_otp_config ex_ticket_record) AND APPEND_CR \<noteq> 0
                    then [Append_keyboard [0x28] ] else []))"
    using short_ticket_branch [of ex_ticket_record EF_OTP_SLOT1 ex_slot1]
    by (auto simp add: length_ex_ticket_record otp_config_size_52 ex_ticket_fields
        SHORT_TICKET_def sizes)
  have "keyboard_after (otp_button_pressed ex_platform 0 1 ex_slot1)
       = [Add_keyboard [0x61, 0x62, 0x63, 0x64, 0x65, 0x66, 0x67, 0x68] False,
          Append_keyboard [0x28] ]"
    unfolding ex_slot1_press s
    by (simp add: keyboard_after_def k ex_ticket_fields APPEND_CR_def ex_slot1_def ex_empty_def)
  then show ?thesis
    by (simp add: ex_ticket_fields SHORT_TICKET_def OATH_HOTP_def)
qed

end
